theory Spec2Isabelle
  imports Complex_Main "HOL-Library.Word"
begin

unbundle bit_operations_syntax

section \<open>Numeric and geometric primitives\<close>

text \<open>
  The three evaluators compute on \<^verbatim>\<open>float\<close> and \<^verbatim>\<open>double\<close> values. Both are
  idealised here as real numbers: comparisons, sums, products and quotients are the exact
  ones, without rounding and without overflow, and the inputs are numbers. The integers of
  the sources (\<^verbatim>\<open>size_t\<close>, \<^verbatim>\<open>VersionID\<close>, the mode mask) keep their machine width.

  Two operations of the Oren-Nayar model have no number as their result at some
  arguments: the quotient \<open>0 / 0\<close> that normalising a zero vector computes, and the arc
  cosine of an argument outside \<open>[-1, 1]\<close>. Both give NaN in the program. The values
  they reach are therefore of the type \<open>float_value\<close>, a number or NaN, and the
  definitions below say where NaN arises and how it spreads.

  The vector, spectrum and scalar helpers live in the foundation headers, which are not part
  of the sources at hand; they are written out below from their use in the three files.

  An \<^verbatim>\<open>assert\<close> on an intermediate value is a debugging check that a release build
  compiles out; the definitions do not evaluate these and continue as the release build
  does. The assertion that closes \<^verbatim>\<open>sample\<close> is on the density that the call hands
  back: it is modelled, and a call that violates it has the error result
  \<open>AssertionFailed\<close>.
\<close>

datatype error = AssertionFailed | NullPointerDereference

datatype float_value = Number real | NaN

fun nonneg :: "float_value \<Rightarrow> bool" where
  "nonneg (Number v) = (0 \<le> v)"
| "nonneg NaN = False"

datatype Vector3f = Vector3f (x3: real) (y3: real) (z3: real)

type_synonym Spectrum = "real list"

definition RcpPi :: real where
  "RcpPi = 1 / pi"

definition HalfPi :: real where
  "HalfPi = pi / 2"

definition RcpPiSquare :: real where
  "RcpPiSquare = 1 / (pi * pi)"

definition square :: "real \<Rightarrow> real" where
  "square v = v * v"

definition pow_int3 :: "real \<Rightarrow> real" where
  "pow_int3 v = v * v * v"

text \<open>
  The arc cosine of the C library is NaN outside \<open>[-1, 1]\<close>. The two-argument
  \<^verbatim>\<open>min\<close> and \<^verbatim>\<open>max\<close> are those of the standard library,
  \<^verbatim>\<open>min(a, b) = (b < a) ? b : a\<close> and \<^verbatim>\<open>max(a, b) = (a < b) ? b : a\<close>: a comparison
  with NaN is false, so both return their first argument when either argument is NaN.
\<close>

definition acos :: "real \<Rightarrow> float_value" where
  "acos v = (if - 1 \<le> v \<and> v \<le> 1 then Number (arccos v) else NaN)"

fun std_min :: "float_value \<Rightarrow> float_value \<Rightarrow> float_value" where
  "std_min (Number a) (Number b) = Number (if b < a then b else a)"
| "std_min a b = a"

fun std_max :: "float_value \<Rightarrow> float_value \<Rightarrow> float_value" where
  "std_max (Number a) (Number b) = Number (if a < b then b else a)"
| "std_max a b = a"

definition dot :: "Vector3f \<Rightarrow> Vector3f \<Rightarrow> real" where
  "dot a b = x3 a * x3 b + y3 a * y3 b + z3 a * z3 b"

definition vadd :: "Vector3f \<Rightarrow> Vector3f \<Rightarrow> Vector3f" where
  "vadd a b = Vector3f (x3 a + x3 b) (y3 a + y3 b) (z3 a + z3 b)"

definition vsub :: "Vector3f \<Rightarrow> Vector3f \<Rightarrow> Vector3f" where
  "vsub a b = Vector3f (x3 a - x3 b) (y3 a - y3 b) (z3 a - z3 b)"

definition vscale :: "Vector3f \<Rightarrow> real \<Rightarrow> Vector3f" where
  "vscale a k = Vector3f (x3 a * k) (y3 a * k) (z3 a * k)"

definition norm3 :: "Vector3f \<Rightarrow> real" where
  "norm3 a = sqrt (dot a a)"

text \<open>
  Modelled from the spec: \<^verbatim>\<open>normalize\<close> and \<^verbatim>\<open>project\<close> are declared in
  foundation/math/vector.h, which is missing. The source's comment says that both
  directions are projected onto the tangent plane, and it writes the projection of the
  incoming direction out as \<^verbatim>\<open>incoming - n * cos_in\<close>; \<open>project\<close> is the same
  expression for any vector. \<open>normalize\<close> divides a vector by its norm. The norm of
  the zero vector is zero, and the division gives NaN in every coordinate: that vector is
  the result \<open>None\<close>.
\<close>

definition normalize :: "Vector3f \<Rightarrow> Vector3f option" where
  "normalize a = (if norm3 a = 0 then None else Some (vscale a (1 / norm3 a)))"

text \<open>The dot product of two normalised vectors; it is NaN when either of them is.\<close>

definition dot_normalized :: "Vector3f option \<Rightarrow> Vector3f option \<Rightarrow> float_value" where
  "dot_normalized a b =
     (case (a, b) of (Some a', Some b') \<Rightarrow> Number (dot a' b') | _ \<Rightarrow> NaN)"

definition project :: "Vector3f \<Rightarrow> Vector3f \<Rightarrow> Vector3f" where
  "project v n = vsub v (vscale n (dot v n))"

text \<open>
  Modelled from the spec: \<^verbatim>\<open>clamp_low_in_place\<close> (foundation/image/color.h, missing)
  raises every component that is below the bound to the bound. NaN is not below any
  bound and stays.
\<close>

definition clamp_low_in_place :: "float_value list \<Rightarrow> real \<Rightarrow> float_value list" where
  "clamp_low_in_place s lo =
     map (\<lambda>c. case c of Number v \<Rightarrow> Number (if v < lo then lo else v) | NaN \<Rightarrow> NaN) s"

section \<open>Oren-Nayar BRDF\<close>

subsection \<open>Data\<close>

text \<open>
  Modelled from the spec: the shading basis is a local orthonormal frame, a normal and two
  tangent vectors; \<^verbatim>\<open>transform_to_parent\<close> expresses a local vector, whose second
  coordinate runs along the normal, in the parent frame (foundation/math/basis.h is missing).
\<close>

record Basis3f =
  m_n :: Vector3f
  m_u :: Vector3f
  m_v :: Vector3f

definition get_normal :: "Basis3f \<Rightarrow> Vector3f" where
  "get_normal b = m_n b"

definition transform_to_parent :: "Basis3f \<Rightarrow> Vector3f \<Rightarrow> Vector3f" where
  "transform_to_parent b v =
     vadd (vadd (vscale (m_u b) (x3 v)) (vscale (m_n b) (y3 v))) (vscale (m_v b) (z3 v))"

text \<open>The input block of the BRDF (\<^verbatim>\<open>OrenNayarBRDFInputValues\<close>).\<close>

record InputValues =
  m_reflectance :: Spectrum
  m_reflectance_multiplier :: real
  m_roughness :: real

text \<open>
  Modelled from the spec: the reflected value carries a diffuse and a beauty component
  (\<^verbatim>\<open>DirectShadingComponents\<close> is declared in a missing header); \<^verbatim>\<open>set\<close> stores one
  scalar in every bucket of every component. The buckets of a value are results of the
  computation and may hold NaN; the reflectance of the input block is a spectrum of numbers.
\<close>

record DirectShadingComponents =
  m_beauty :: "float_value list"
  m_diffuse :: "float_value list"

definition set_components :: "real \<Rightarrow> DirectShadingComponents \<Rightarrow> DirectShadingComponents" where
  "set_components c value =
     value\<lparr>m_beauty := map (\<lambda>_. Number c) (m_beauty value),
            m_diffuse := map (\<lambda>_. Number c) (m_diffuse value)\<rparr>"

text \<open>
  Modelled from the spec: the mode mask is a bit set in an \<^verbatim>\<open>int\<close>, and
  \<^verbatim>\<open>has_diffuse\<close> tests the diffuse bit (renderer/kernel/lighting/scatteringmode.h is
  missing; the diffuse bit is taken to be the lowest one, and \<open>None\<close> is the empty mask).
\<close>

type_synonym ScatteringMode = "32 word"

definition None_mode :: ScatteringMode where
  "None_mode = 0"

definition Diffuse :: ScatteringMode where
  "Diffuse = 1"

definition has_diffuse :: "ScatteringMode \<Rightarrow> bool" where
  "has_diffuse modes = (modes AND Diffuse \<noteq> 0)"

text \<open>
  The sample record. Ray differentials are not modelled: \<open>m_outgoing\<close> and
  \<open>m_incoming\<close> hold the values of the dual vectors, and
  \<^verbatim>\<open>compute_reflected_differentials\<close>, which only fills in the derivatives of the
  incoming direction, has no effect on the fields below.
\<close>

record BSDFSample =
  m_shading_basis :: Basis3f
  m_outgoing :: Vector3f
  m_incoming :: Vector3f
  m_value :: DirectShadingComponents
  m_probability :: real
  m_mode :: ScatteringMode

subsection \<open>The qualitative model\<close>

text \<open>
  The angle \<open>theta_r\<close> is NaN when \<open>cos_on\<close> exceeds one, and then so are \<open>alpha\<close> and
  \<open>beta\<close>; a NaN in \<open>theta_i\<close> alone is dropped by \<^verbatim>\<open>max\<close> and \<^verbatim>\<open>min\<close>, which
  return \<open>theta_r\<close>. The azimuthal cosine is NaN when either projection onto the tangent
  plane is the zero vector, that is, when a direction lies along the normal. Each of
  \<open>alpha\<close>, \<open>beta\<close> and \<open>delta_cos_phi\<close> enters the factor of the direct term in a product
  or a sum, so when one of them is NaN the factor is, and with it every bucket of the
  value, whatever the reflectance; the final clamp leaves NaN in place. Otherwise all
  quantities are numbers and the computation is the one over the reals.
\<close>

definition oren_nayar_qualitative ::
  "real \<Rightarrow> real \<Rightarrow> real \<Rightarrow> Spectrum \<Rightarrow> real \<Rightarrow> Vector3f \<Rightarrow> Vector3f \<Rightarrow> Vector3f \<Rightarrow>
     float_value list"
where
  "oren_nayar_qualitative cos_on cos_in roughness reflectance reflectance_multiplier
       outgoing incoming n =
     (let sigma2 = square roughness;
          theta_r = std_min (acos cos_on) (Number HalfPi);
          theta_i = acos cos_in;
          alpha = std_max theta_r theta_i;
          beta = std_min theta_r theta_i;
          V_perp_N = normalize (project outgoing n);
          I_perp_N = normalize (vsub incoming (vscale n cos_in));
          delta_cos_phi = dot_normalized V_perp_N I_perp_N;
          value =
            (case (alpha, beta, delta_cos_phi) of
               (Number alpha, Number beta, Number delta_cos_phi) \<Rightarrow>
                 (let C1 = 1 - 0.5 * (sigma2 / (sigma2 + 0.33));
                      sigma2_009 = sigma2 / (sigma2 + 0.09);
                      C2 = 0.45 * sigma2_009 *
                             (if delta_cos_phi \<ge> 0 then sin alpha
                              else sin alpha - pow_int3 (2 * beta * RcpPi));
                      C3 = 0.125 * sigma2_009 * square (4 * alpha * beta * RcpPiSquare);
                      value = map (\<lambda>r. r *
                                (reflectance_multiplier * RcpPi *
                                  (C1 + delta_cos_phi * C2 * tan beta
                                      + (1 - \<bar>delta_cos_phi\<bar>) * C3
                                          * tan (0.5 * (alpha + beta)))))
                                reflectance;
                      r2 = map (\<lambda>r. r * r) reflectance;
                      r2 = map (\<lambda>r. r *
                                (0.17 * square reflectance_multiplier * RcpPi * cos_in * sigma2
                                   / (sigma2 + 0.13)
                                   * (1 - delta_cos_phi * square (2 * beta * RcpPi))))
                                r2
                  in map Number (map2 (+) value r2))
             | _ \<Rightarrow> map (\<lambda>_. NaN) reflectance)
      in clamp_low_in_place value 0)"

subsection \<open>evaluate, evaluate_pdf and sample\<close>

text \<open>
  \<open>evaluate\<close> returns the probability density and the contents of the caller's
  \<^verbatim>\<open>value\<close> object after the call; the object is an in/out parameter, so a return
  that does not write it hands back what the caller passed. The parameters
  \<^verbatim>\<open>adjoint\<close>, \<^verbatim>\<open>cosine_mult\<close> and \<^verbatim>\<open>geometric_normal\<close> are never read by the
  source and are left out.
\<close>

definition evaluate ::
  "InputValues \<Rightarrow> Basis3f \<Rightarrow> Vector3f \<Rightarrow> Vector3f \<Rightarrow> ScatteringMode \<Rightarrow>
     DirectShadingComponents \<Rightarrow> real \<times> DirectShadingComponents"
where
  "evaluate values shading_basis outgoing incoming modes value =
     (if \<not> has_diffuse modes then (0, value)
      else
        let n = get_normal shading_basis;
            cos_in = dot incoming n
        in if cos_in < 0 then (0, value)
           else
             let value0 = set_components 0 value
             in if m_roughness values \<noteq> 0 then
                  (let cos_on = dot outgoing n
                   in if cos_on < 0 then (0, value0)
                      else
                        let d = oren_nayar_qualitative cos_on cos_in (m_roughness values)
                                  (m_reflectance values) (m_reflectance_multiplier values)
                                  outgoing incoming n
                        in (cos_in * RcpPi, value0\<lparr>m_diffuse := d, m_beauty := d\<rparr>))
                else
                  (let d = map (\<lambda>r. Number (r * (m_reflectance_multiplier values * RcpPi)))
                             (m_reflectance values)
                   in (cos_in * RcpPi, value0\<lparr>m_diffuse := d, m_beauty := d\<rparr>)))"

definition evaluate_pdf ::
  "InputValues \<Rightarrow> Basis3f \<Rightarrow> Vector3f \<Rightarrow> Vector3f \<Rightarrow> ScatteringMode \<Rightarrow> real"
where
  "evaluate_pdf values shading_basis outgoing incoming modes =
     (if \<not> has_diffuse modes then 0
      else
        let n = get_normal shading_basis;
            cos_in = dot incoming n
        in if cos_in < 0 then 0
           else if m_roughness values \<noteq> 0 then
                  (let cos_on = dot outgoing n
                   in if cos_on < 0 then 0 else cos_in * RcpPi)
                else cos_in * RcpPi)"

text \<open>
  \<open>sample\<close> draws a two-dimensional point from the sampling context and maps it to a
  local direction \<open>wi\<close> with \<^verbatim>\<open>sample_hemisphere_cosine\<close>. The sampling context
  and the mapping (foundation/math/sampling/mappings.h) are missing, so the local direction
  they produce is a parameter. The sample record is updated in place: an early return
  leaves it as the caller passed it. A call that reaches the end asserts that the density
  it has just stored is positive; where it is not, the result is \<open>AssertionFailed\<close>.
\<close>

definition sample ::
  "Vector3f \<Rightarrow> InputValues \<Rightarrow> ScatteringMode \<Rightarrow> BSDFSample \<Rightarrow> error + BSDFSample"
where
  "sample wi values modes smp =
     (if \<not> has_diffuse modes then Inr smp
      else
        let incoming = transform_to_parent (m_shading_basis smp) wi
        in if m_roughness values \<noteq> 0 then
             (let n = get_normal (m_shading_basis smp);
                  cos_on = dot (m_outgoing smp) n
              in if cos_on < 0 then Inr smp
                 else
                   let cos_in = dot incoming n
                   in if cos_in < 0 then Inr smp
                      else
                        let d = oren_nayar_qualitative cos_on cos_in (m_roughness values)
                                  (m_reflectance values) (m_reflectance_multiplier values)
                                  (m_outgoing smp) incoming n;
                            smp = smp\<lparr>m_value := (m_value smp)\<lparr>m_diffuse := d, m_beauty := d\<rparr>,
                                      m_probability := y3 wi * RcpPi\<rparr>
                        in if \<not> m_probability smp > 0 then Inl AssertionFailed
                           else Inr (smp\<lparr>m_mode := Diffuse, m_incoming := incoming\<rparr>))
           else
             (let d = map (\<lambda>r. Number (r * (m_reflectance_multiplier values * RcpPi)))
                        (m_reflectance values);
                  smp = smp\<lparr>m_value := (m_value smp)\<lparr>m_diffuse := d, m_beauty := d\<rparr>,
                            m_probability := y3 wi * RcpPi\<rparr>
              in if \<not> m_probability smp > 0 then Inl AssertionFailed
                 else Inr (smp\<lparr>m_mode := Diffuse, m_incoming := incoming\<rparr>)))"

section \<open>Pixel variation AOV\<close>

text \<open>
  A pixel is a three-channel colour; the variation is stored in the first channel. The image
  is a store from pixel coordinates to colours, read with \<open>get_pixel\<close> and written with
  \<open>set_pixel\<close>. The crop window comes from the frame and lies inside the image, so its
  coordinates are far below \<open>2 ^ 64\<close>: the \<^verbatim>\<open>size_t\<close> loop counters are natural
  numbers, and their increment never wraps.
\<close>

datatype Color3f = Color3f (c0: real) (c1: real) (c2: real)

type_synonym Image = "nat \<times> nat \<Rightarrow> Color3f"

record AABB2u =
  min_x :: nat
  min_y :: nat
  max_x :: nat
  max_y :: nat

definition get_pixel :: "Image \<Rightarrow> nat \<Rightarrow> nat \<Rightarrow> Color3f" where
  "get_pixel img x y = img (x, y)"

definition set_pixel :: "Image \<Rightarrow> nat \<Rightarrow> nat \<Rightarrow> Color3f \<Rightarrow> Image" where
  "set_pixel img x y color = img((x, y) := color)"

definition Blue :: Color3f where
  "Blue = Color3f 0 0 1"

definition Red :: Color3f where
  "Red = Color3f 1 0 0"

text \<open>
  Modelled from the spec: \<^verbatim>\<open>lerp\<close> is the linear interpolation between two colours
  and \<^verbatim>\<open>fit\<close> remaps a value linearly from one interval to another
  (foundation/math/scalar.h is missing).
\<close>

definition lerp :: "Color3f \<Rightarrow> Color3f \<Rightarrow> real \<Rightarrow> Color3f" where
  "lerp a b t =
     Color3f ((1 - t) * c0 a + t * c0 b) ((1 - t) * c1 a + t * c1 b) ((1 - t) * c2 a + t * c2 b)"

definition fit :: "real \<Rightarrow> real \<Rightarrow> real \<Rightarrow> real \<Rightarrow> real \<Rightarrow> real" where
  "fit x lo_x hi_x lo_y hi_y =
     (let k = (x - lo_x) / (hi_x - lo_x) in (1 - k) * lo_y + k * hi_y)"

text \<open>
  The three pairs of nested loops of \<^verbatim>\<open>post_process_image\<close>, rows outside and columns
  inside, both bounds inclusive: the scan for the maximum, which starts from zero, the
  normalising pass and the fill.
\<close>

definition find_max_variation :: "Image \<Rightarrow> AABB2u \<Rightarrow> real" where
  "find_max_variation img crop_window =
     fold (\<lambda>y max_variation.
            fold (\<lambda>x max_variation.
                   let color = get_pixel img x y
                   in max (c0 color) max_variation)
              [min_x crop_window ..< Suc (max_x crop_window)] max_variation)
       [min_y crop_window ..< Suc (max_y crop_window)] 0"

definition normalize_pass :: "real \<Rightarrow> Image \<Rightarrow> AABB2u \<Rightarrow> Image" where
  "normalize_pass max_variation img crop_window =
     fold (\<lambda>y img.
            fold (\<lambda>x img.
                   let color = get_pixel img x y;
                       c = fit (c0 color) 0 max_variation 0 1
                   in set_pixel img x y (lerp Blue Red c))
              [min_x crop_window ..< Suc (max_x crop_window)] img)
       [min_y crop_window ..< Suc (max_y crop_window)] img"

definition fill_pass :: "Image \<Rightarrow> AABB2u \<Rightarrow> Image" where
  "fill_pass img crop_window =
     fold (\<lambda>y img.
            fold (\<lambda>x img. set_pixel img x y Blue)
              [min_x crop_window ..< Suc (max_x crop_window)] img)
       [min_y crop_window ..< Suc (max_y crop_window)] img"

definition post_process_image :: "Image \<Rightarrow> AABB2u \<Rightarrow> Image" where
  "post_process_image img crop_window =
     (let max_variation = find_max_variation img crop_window
      in if max_variation \<noteq> 0 then normalize_pass max_variation img crop_window
         else fill_pass img crop_window)"

text \<open>The pixels of the crop window.\<close>

definition window :: "AABB2u \<Rightarrow> (nat \<times> nat) set" where
  "window crop_window =
     {p. min_x crop_window \<le> fst p \<and> fst p \<le> max_x crop_window
         \<and> min_y crop_window \<le> snd p \<and> snd p \<le> max_y crop_window}"

section \<open>Voxel-based ambient occlusion surface shader\<close>

subsection \<open>Parameters and construction\<close>

text \<open>
  Modelled from the spec: the parameter dictionary supports required and optional typed
  lookups with defaults (\<^verbatim>\<open>ParamArray\<close> is missing). A lookup returns the stored
  value when the key is present with a value of the requested type and the default
  otherwise; what the dictionary itself logs on a missing key is not modelled.
\<close>

datatype param_value = PSize "64 word" | PReal real | PString string | PBool bool

type_synonym ParamArray = "string \<rightharpoonup> param_value"

definition get_size :: "ParamArray \<Rightarrow> string \<Rightarrow> 64 word \<Rightarrow> 64 word" where
  "get_size params name default_value =
     (case params name of Some (PSize v) \<Rightarrow> v | _ \<Rightarrow> default_value)"

definition get_real :: "ParamArray \<Rightarrow> string \<Rightarrow> real \<Rightarrow> real" where
  "get_real params name default_value =
     (case params name of Some (PReal v) \<Rightarrow> v | _ \<Rightarrow> default_value)"

definition get_string :: "ParamArray \<Rightarrow> string \<Rightarrow> string \<Rightarrow> string" where
  "get_string params name default_value =
     (case params name of Some (PString v) \<Rightarrow> v | _ \<Rightarrow> default_value)"

definition get_bool :: "ParamArray \<Rightarrow> string \<Rightarrow> bool \<Rightarrow> bool" where
  "get_bool params name default_value =
     (case params name of Some (PBool v) \<Rightarrow> v | _ \<Rightarrow> default_value)"

text \<open>
  Version identifiers are unsigned 64-bit counters. The constant
  \<^verbatim>\<open>InvalidVersionID\<close> (foundation/utility/version.h) is missing; it is taken to be
  the all-ones word.
\<close>

type_synonym VersionID = "64 word"

definition InvalidVersionID :: VersionID where
  "InvalidVersionID = - 1"

text \<open>
  The members of the shader. The voxel tree and its intersector are the two owning
  pointers, null until the first build; their types are parameters, since the voxel tree
  is not part of the sources.
\<close>

record ('tree, 'isect) VoxelAOSurfaceShader =
  m_name :: string
  m_samples :: "64 word"
  m_max_distance :: real
  m_max_voxel_extent :: real
  m_low_threshold :: real
  m_high_threshold :: real
  m_output_filename :: string
  m_enable_diagnostics :: bool
  m_last_geometry_version_id :: VersionID
  m_last_asm_inst_version_id :: VersionID
  m_voxel_tree :: "'tree option"
  m_voxel_tree_intersector :: "'isect option"
  m_diag_length :: real
  m_classic_threshold :: real
  m_fast_threshold :: real
  m_half_samples :: "64 word"

text \<open>A message of the renderer's log: the format string and its arguments.\<close>

datatype log_message = LogError string "real list"

definition DefaultLowThreshold :: real where
  "DefaultLowThreshold = 2"

definition DefaultHighThreshold :: real where
  "DefaultHighThreshold = 4"

text \<open>
  \<open>extract_parameters\<close> writes the configuration members of the shader and returns the
  shader with what it logged.
\<close>

definition extract_parameters ::
  "ParamArray \<Rightarrow> ('tree, 'isect) VoxelAOSurfaceShader \<Rightarrow>
     ('tree, 'isect) VoxelAOSurfaceShader \<times> log_message list"
where
  "extract_parameters m_params this =
     (let this = this\<lparr>m_samples := get_size m_params ''samples'' 16\<rparr>;
          this = this\<lparr>m_max_distance := get_real m_params ''max_distance'' 1\<rparr>;
          this = this\<lparr>m_max_voxel_extent := get_real m_params ''max_voxel_extent'' 0.01\<rparr>;
          this = this\<lparr>m_low_threshold := get_real m_params ''low_threshold'' DefaultLowThreshold\<rparr>;
          this = this\<lparr>m_high_threshold := get_real m_params ''high_threshold'' DefaultHighThreshold\<rparr>;
          this = this\<lparr>m_output_filename := get_string m_params ''output_filename'' []\<rparr>;
          this = this\<lparr>m_enable_diagnostics := get_bool m_params ''enable_diagnostics'' False\<rparr>
      in if m_low_threshold this < 0 \<or> m_high_threshold this < 0
            \<or> m_high_threshold this < m_low_threshold this
         then (this\<lparr>m_low_threshold := DefaultLowThreshold,
                     m_high_threshold := DefaultHighThreshold\<rparr>,
               [LogError ''invalid low and high threshold values, switching back to default %f and %f''
                  [DefaultLowThreshold, DefaultHighThreshold]])
         else (this, []))"

text \<open>
  The constructor. The object's storage before construction is the record \<open>raw\<close>: the
  members that the constructor does not initialise (the derived thresholds and the halved
  sample count) keep whatever it holds.
\<close>

definition construct ::
  "string \<Rightarrow> ParamArray \<Rightarrow> ('tree, 'isect) VoxelAOSurfaceShader \<Rightarrow>
     ('tree, 'isect) VoxelAOSurfaceShader \<times> log_message list"
where
  "construct name params raw =
     extract_parameters params
       (raw\<lparr>m_name := name,
             m_last_geometry_version_id := InvalidVersionID,
             m_last_asm_inst_version_id := InvalidVersionID,
             m_voxel_tree := None,
             m_voxel_tree_intersector := None\<rparr>)"

subsection \<open>The per-frame rebuild\<close>

text \<open>
  The scene exposes its two version counters; the rest of it is the parameter \<open>'g\<close>.
  Building a voxel tree from the scene, reading its largest diagonal and creating an
  intersector for it are operations of the missing voxel tree, passed in as a record.
\<close>

record 'g Scene =
  geometry_version_id :: VersionID
  assembly_instances_version_id :: VersionID
  geometry :: 'g

record ('g, 'tree, 'isect) voxel_tree_ops =
  new_AOVoxelTree :: "'g Scene \<Rightarrow> real \<Rightarrow> 'tree"
  get_max_diag_length :: "'tree \<Rightarrow> real"
  new_AOVoxelTreeIntersector :: "'tree \<Rightarrow> 'isect"

text \<open>
  What a call of \<open>on_frame_begin\<close> does besides updating the shader: the builds it
  runs and the file it writes, in order.
\<close>

datatype action = BuildVoxelTree | DumpSolidLeavesToDisk string | BuildIntersector

definition on_frame_begin ::
  "('g, 'tree, 'isect) voxel_tree_ops \<Rightarrow> 'g Scene \<Rightarrow> ('tree, 'isect) VoxelAOSurfaceShader \<Rightarrow>
     ('tree, 'isect) VoxelAOSurfaceShader \<times> action list"
where
  "on_frame_begin ops scene this =
     (if geometry_version_id scene \<noteq> m_last_geometry_version_id this
         \<or> assembly_instances_version_id scene \<noteq> m_last_asm_inst_version_id this
      then
        let this = this\<lparr>m_last_geometry_version_id := geometry_version_id scene\<rparr>;
            this = this\<lparr>m_last_asm_inst_version_id := assembly_instances_version_id scene\<rparr>;
            tree = new_AOVoxelTree ops scene (m_max_voxel_extent this);
            this = this\<lparr>m_voxel_tree := Some tree\<rparr>;
            dump = (if m_output_filename this \<noteq> []
                    then [DumpSolidLeavesToDisk (m_output_filename this)] else []);
            this = this\<lparr>m_diag_length := get_max_diag_length ops tree * (1 + 0.00001)\<rparr>;
            this = this\<lparr>m_classic_threshold := m_low_threshold this * m_diag_length this\<rparr>;
            this = this\<lparr>m_fast_threshold := m_high_threshold this * m_diag_length this\<rparr>;
            this = this\<lparr>m_half_samples := m_samples this div 2\<rparr>;
            this = (if m_half_samples this < 1 then this\<lparr>m_half_samples := 1\<rparr> else this);
            this = this\<lparr>m_voxel_tree_intersector := Some (new_AOVoxelTreeIntersector ops tree)\<rparr>
        in (this, [BuildVoxelTree] @ dump @ [BuildIntersector])
      else (this, []))"

subsection \<open>Shading\<close>

text \<open>
  Modelled from the spec: \<^verbatim>\<open>linearstep\<close> (foundation/math/scalar.h, missing) is the
  linear ramp used as blend factor: zero up to the lower edge, one from the upper edge on.
\<close>

definition linearstep :: "real \<Rightarrow> real \<Rightarrow> real \<Rightarrow> real" where
  "linearstep a b x = (if x \<le> a then 0 else if x \<ge> b then 1 else (x - a) / (b - a))"

type_synonym Vector3d = Vector3f

record Ray =
  m_org :: Vector3d
  m_dir :: Vector3d
  m_tmin :: real
  m_tmax :: real

text \<open>What the shader reads of the shading point, and what it writes of the result.\<close>

record ShadingPoint =
  get_point :: Vector3d
  get_geometric_normal :: Vector3d
  get_ray_dir :: Vector3d
  get_distance :: real
  get_shading_basis :: Basis3f

datatype ColorSpace = ColorSpaceLinearRGB | ColorSpaceSRGB | ColorSpaceCIEXYZ | ColorSpaceSpectral

record ShadingResult =
  m_color_space :: ColorSpace
  m_alpha :: real
  m_color :: Color3f

text \<open>
  The ray queries and the two occlusion estimators are missing and are passed in. \<open>trace\<close>
  takes the distance variable as it stands before the call and returns the hit flag with
  the variable's content after the call. The estimators draw from the sampling context
  \<open>'sc\<close> and return the occlusion with the context they leave; \<open>'xi\<close> is the
  intersector of the shading context. Their argument lists are the source's, without the
  output parameter \<^verbatim>\<open>min_distance\<close>, which is never read.
\<close>

record ('isect, 'sc, 'xi) occlusion_ops =
  trace :: "'isect \<Rightarrow> Ray \<Rightarrow> bool \<Rightarrow> real \<Rightarrow> bool \<times> real"
  compute_fast_ambient_occlusion ::
    "'sc \<Rightarrow> 'isect \<Rightarrow> Vector3d \<Rightarrow> Vector3d \<Rightarrow> Basis3f \<Rightarrow> real \<Rightarrow> 64 word \<Rightarrow> real \<times> 'sc"
  compute_ambient_occlusion ::
    "'sc \<Rightarrow> 'xi \<Rightarrow> Vector3d \<Rightarrow> Vector3d \<Rightarrow> Basis3f \<Rightarrow> real \<Rightarrow> 64 word \<Rightarrow> ShadingPoint
       \<Rightarrow> real \<times> 'sc"

text \<open>
  The last part of \<^verbatim>\<open>evaluate\<close>, from the decision on the measured clearance to the
  end, for any clearance: it returns the shading result and the sampling context.
\<close>

definition evaluate_at_clearance ::
  "('isect, 'sc, 'xi) occlusion_ops \<Rightarrow> ('tree, 'isect) VoxelAOSurfaceShader \<Rightarrow> 'sc \<Rightarrow> 'xi \<Rightarrow>
     ShadingPoint \<Rightarrow> ShadingResult \<Rightarrow> 'isect \<Rightarrow> Vector3d \<Rightarrow> real \<Rightarrow> ShadingResult \<times> 'sc"
where
  "evaluate_at_clearance ops this sampling_context intersector shading_point shading_result
       isect safe_origin clearance =
     (if clearance \<ge> m_fast_threshold this then
        (let (occlusion, sampling_context) =
               compute_fast_ambient_occlusion ops sampling_context isect safe_origin
                 (get_geometric_normal shading_point) (get_shading_basis shading_point)
                 (m_max_distance this) (m_samples this)
         in if m_enable_diagnostics this
            then (shading_result\<lparr>m_color := Color3f 0 0 1\<rparr>, sampling_context)
            else (shading_result\<lparr>m_color := Color3f (1 - occlusion) (1 - occlusion) (1 - occlusion)\<rparr>,
                  sampling_context))
      else if clearance < m_classic_threshold this then
        (let (occlusion, sampling_context) =
               compute_ambient_occlusion ops sampling_context intersector
                 (get_point shading_point) (get_geometric_normal shading_point)
                 (get_shading_basis shading_point) (m_max_distance this) (m_samples this)
                 shading_point
         in if m_enable_diagnostics this
            then (shading_result\<lparr>m_color := Color3f 1 1 0\<rparr>, sampling_context)
            else (shading_result\<lparr>m_color := Color3f (1 - occlusion) (1 - occlusion) (1 - occlusion)\<rparr>,
                  sampling_context))
      else
        (let (classic_occlusion, sampling_context) =
               compute_ambient_occlusion ops sampling_context intersector
                 (get_point shading_point) (get_geometric_normal shading_point)
                 (get_shading_basis shading_point) (m_max_distance this) (m_half_samples this)
                 shading_point;
             (fast_occlusion, sampling_context) =
               compute_fast_ambient_occlusion ops sampling_context isect safe_origin
                 (get_geometric_normal shading_point) (get_shading_basis shading_point)
                 (m_max_distance this) (m_half_samples this);
             k = linearstep (m_classic_threshold this) (m_fast_threshold this) clearance;
             occlusion = k * fast_occlusion + (1 - k) * classic_occlusion
         in if m_enable_diagnostics this
            then (shading_result\<lparr>m_color := Color3f (1 - k) 0 k\<rparr>, sampling_context)
            else (shading_result\<lparr>m_color := Color3f (1 - occlusion) (1 - occlusion) (1 - occlusion)\<rparr>,
                  sampling_context)))"

text \<open>
  \<^verbatim>\<open>evaluate\<close>. The intersector is reached through its owning pointer, which is null
  until \<open>on_frame_begin\<close> has built it: dereferencing the null pointer is the error
  result. \<open>backtrack_init\<close> is the content of the local \<^verbatim>\<open>backtrack\<close>, which the
  source does not initialise, before the first query; the hit flag of that query is only
  asserted.
\<close>

definition vneg :: "Vector3d \<Rightarrow> Vector3d" where
  "vneg a = Vector3f (- x3 a) (- y3 a) (- z3 a)"

definition evaluate_ao ::
  "('isect, 'sc, 'xi) occlusion_ops \<Rightarrow> ('tree, 'isect) VoxelAOSurfaceShader \<Rightarrow> 'sc \<Rightarrow> 'xi \<Rightarrow>
     ShadingPoint \<Rightarrow> ShadingResult \<Rightarrow> real \<Rightarrow> error + ShadingResult \<times> 'sc"
where
  "evaluate_ao ops this sampling_context intersector shading_point shading_result backtrack_init =
     (case m_voxel_tree_intersector this of
        None \<Rightarrow> Inl NullPointerDereference
      | Some isect \<Rightarrow>
          let shading_result = shading_result\<lparr>m_color_space := ColorSpaceLinearRGB\<rparr>;
              shading_result = shading_result\<lparr>m_alpha := 1\<rparr>;
              geometric_normal = get_geometric_normal shading_point;
              safe_origin = get_point shading_point;
              reverse_ray = \<lparr>m_org = safe_origin, m_dir = vneg (get_ray_dir shading_point),
                             m_tmin = 0, m_tmax = get_distance shading_point\<rparr>;
              (hit, backtrack) = trace ops isect reverse_ray False backtrack_init;
              safe_origin = vadd safe_origin
                              (vscale (m_dir reverse_ray) (backtrack * (1 + 0.00001)));
              normal_ray = \<lparr>m_org = safe_origin, m_dir = geometric_normal,
                            m_tmin = 0, m_tmax = m_fast_threshold this\<rparr>;
              clearance = snd (trace ops isect normal_ray True (m_fast_threshold this));
              safe_origin = vadd safe_origin (vscale geometric_normal (m_diag_length this))
          in Inr (evaluate_at_clearance ops this sampling_context intersector shading_point
                    shading_result isect safe_origin clearance))"

text \<open>
  The decision rule in the spec's words, to compare the source with: fast mode estimates
  the occlusion from the voxel tree alone, classic mode traces the actual geometry, and
  blend mode runs both at half the sample count and interpolates with the factor \<open>k\<close>.
  The result is the accessibility \<open>1 - occlusion\<close> on all three channels or, with
  diagnostics enabled, the colour that identifies the mode.
\<close>

datatype occlusion_mode = FastMode | ClassicMode | BlendMode real

definition spec_select_mode :: "real \<Rightarrow> real \<Rightarrow> real \<Rightarrow> occlusion_mode" where
  "spec_select_mode classic_threshold fast_threshold clearance =
     (if clearance \<ge> fast_threshold then FastMode
      else if clearance < classic_threshold then ClassicMode
      else BlendMode (linearstep classic_threshold fast_threshold clearance))"

definition spec_output :: "bool \<Rightarrow> Color3f \<Rightarrow> real \<Rightarrow> ShadingResult \<Rightarrow> ShadingResult" where
  "spec_output diagnostics mode_color occlusion shading_result =
     (if diagnostics then shading_result\<lparr>m_color := mode_color\<rparr>
      else shading_result\<lparr>m_color := Color3f (1 - occlusion) (1 - occlusion) (1 - occlusion)\<rparr>)"

fun spec_shade ::
  "('isect, 'sc, 'xi) occlusion_ops \<Rightarrow> ('tree, 'isect) VoxelAOSurfaceShader \<Rightarrow> 'sc \<Rightarrow> 'xi \<Rightarrow>
     ShadingPoint \<Rightarrow> ShadingResult \<Rightarrow> 'isect \<Rightarrow> Vector3d \<Rightarrow> occlusion_mode \<Rightarrow> ShadingResult \<times> 'sc"
where
  "spec_shade ops this sc xi sp res isect origin FastMode =
     (let fast = compute_fast_ambient_occlusion ops sc isect origin (get_geometric_normal sp)
                   (get_shading_basis sp) (m_max_distance this) (m_samples this)
      in (spec_output (m_enable_diagnostics this) (Color3f 0 0 1) (fst fast) res, snd fast))"
| "spec_shade ops this sc xi sp res isect origin ClassicMode =
     (let classic = compute_ambient_occlusion ops sc xi (get_point sp) (get_geometric_normal sp)
                      (get_shading_basis sp) (m_max_distance this) (m_samples this) sp
      in (spec_output (m_enable_diagnostics this) (Color3f 1 1 0) (fst classic) res, snd classic))"
| "spec_shade ops this sc xi sp res isect origin (BlendMode k) =
     (let classic = compute_ambient_occlusion ops sc xi (get_point sp) (get_geometric_normal sp)
                      (get_shading_basis sp) (m_max_distance this) (m_half_samples this) sp;
          fast = compute_fast_ambient_occlusion ops (snd classic) isect origin
                   (get_geometric_normal sp) (get_shading_basis sp) (m_max_distance this)
                   (m_half_samples this)
      in (spec_output (m_enable_diagnostics this) (Color3f (1 - k) 0 k)
            (k * fst fast + (1 - k) * fst classic) res, snd fast))"

section \<open>Concrete inputs\<close>

text \<open>
  Inputs at which the theorems below are instantiated: an upright shading basis with the
  unit directions along the normal, against it and at an angle to it, the
  three-pixel row of variations \<open>0\<close>, \<open>1/2\<close> and \<open>1\<close>, and a shader over a voxel tree
  that is represented by its largest diagonal. Its intersector is represented by the
  distance at which a ray along the normal is blocked, the reverse ray leaves the hierarchy
  at once, and the estimators return fixed occlusions and count the samples they draw.
\<close>

definition upright_basis :: Basis3f where
  "upright_basis = \<lparr>m_n = Vector3f 0 1 0, m_u = Vector3f 1 0 0, m_v = Vector3f 0 0 1\<rparr>"

definition up :: Vector3f where
  "up = Vector3f 0 1 0"

definition down :: Vector3f where
  "down = Vector3f 0 (- 1) 0"

definition slanted :: Vector3f where
  "slanted = Vector3f (3 / 5) (4 / 5) 0"

definition black :: DirectShadingComponents where
  "black = \<lparr>m_beauty = [Number 0], m_diffuse = [Number 0]\<rparr>"

definition fresh_sample :: "Vector3f \<Rightarrow> BSDFSample" where
  "fresh_sample outgoing =
     \<lparr>m_shading_basis = upright_basis, m_outgoing = outgoing, m_incoming = Vector3f 0 0 0,
      m_value = black, m_probability = 0, m_mode = None_mode\<rparr>"

definition row_image :: Image where
  "row_image = (\<lambda>p. Color3f 0 0 0)((1, 0) := Color3f (1 / 2) 0 0, (2, 0) := Color3f 1 0 0)"

definition row_window :: AABB2u where
  "row_window = \<lparr>min_x = 0, min_y = 0, max_x = 2, max_y = 0\<rparr>"

definition diag_tree_ops :: "(real, real, real) voxel_tree_ops" where
  "diag_tree_ops =
     \<lparr>new_AOVoxelTree = (\<lambda>scene extent. geometry scene),
      get_max_diag_length = (\<lambda>tree. tree),
      new_AOVoxelTreeIntersector = (\<lambda>tree. tree)\<rparr>"

definition counting_ops :: "(real, nat, unit) occlusion_ops" where
  "counting_ops =
     \<lparr>trace = (\<lambda>isect ray any distance. (True, if any then min isect distance else 0)),
      compute_fast_ambient_occlusion =
        (\<lambda>sc isect origin normal basis max_distance samples. (1 / 4, sc + unat samples)),
      compute_ambient_occlusion =
        (\<lambda>sc xi point normal basis max_distance samples sp. (3 / 4, sc + unat samples))\<rparr>"

definition diagnostic_shader :: "real \<Rightarrow> real \<Rightarrow> (real, real) VoxelAOSurfaceShader" where
  "diagnostic_shader classic_threshold fast_threshold =
     \<lparr>m_name = ''ao'', m_samples = 16, m_max_distance = 1, m_max_voxel_extent = 0.01,
      m_low_threshold = classic_threshold, m_high_threshold = fast_threshold,
      m_output_filename = [], m_enable_diagnostics = True,
      m_last_geometry_version_id = 7, m_last_asm_inst_version_id = 3,
      m_voxel_tree = Some 1, m_voxel_tree_intersector = Some 1,
      m_diag_length = 1, m_classic_threshold = classic_threshold,
      m_fast_threshold = fast_threshold, m_half_samples = 8\<rparr>"

definition flat_point :: ShadingPoint where
  "flat_point =
     \<lparr>get_point = Vector3f 0 0 0, get_geometric_normal = up, get_ray_dir = down,
      get_distance = 1, get_shading_basis = upright_basis\<rparr>"

definition blank_result :: ShadingResult where
  "blank_result = \<lparr>m_color_space = ColorSpaceLinearRGB, m_alpha = 1, m_color = Color3f 0 0 0\<rparr>"

text \<open>
  A shader as construction and the first frame leave it when the dictionary gives the low
  and the high threshold the same value.
\<close>

definition equal_thresholds_shader :: "(real, real) VoxelAOSurfaceShader" where
  "equal_thresholds_shader =
     fst (on_frame_begin diag_tree_ops
            \<lparr>geometry_version_id = 1, assembly_instances_version_id = 1, geometry = 5\<rparr>
            (fst (construct ''ao''
                    [''low_threshold'' \<mapsto> PReal (1 / 2), ''high_threshold'' \<mapsto> PReal (1 / 2),
                     ''enable_diagnostics'' \<mapsto> PBool True]
                    (diagnostic_shader 0 0))))"

section \<open>Properties of the Oren-Nayar BRDF\<close>

lemma has_diffuse_Diffuse: "has_diffuse Diffuse"
  by (simp add: has_diffuse_def Diffuse_def)

lemma dot_up_up: "dot up (get_normal upright_basis) = 1"
  by (simp add: dot_def up_def get_normal_def upright_basis_def)

lemma dot_down_up: "dot down (get_normal upright_basis) = - 1"
  by (simp add: dot_def down_def get_normal_def upright_basis_def)

lemma dot_slanted_up: "dot slanted (get_normal upright_basis) = 4 / 5"
  by (simp add: dot_def slanted_def get_normal_def upright_basis_def)

lemma transform_up: "transform_to_parent upright_basis up = up"
  by (simp add: transform_to_parent_def upright_basis_def up_def vadd_def vscale_def)


lemma normalize_project_slanted:
  "normalize (project slanted (get_normal upright_basis)) \<noteq> None"
  by (simp add: normalize_def norm3_def project_def vsub_def vscale_def dot_def slanted_def
      get_normal_def upright_basis_def)

lemma normalize_project_up:
  "normalize (project up (get_normal upright_basis)) = None"
  by (simp add: normalize_def norm3_def project_def vsub_def vscale_def dot_def up_def
      get_normal_def upright_basis_def)

lemma clamp_low_nonneg: "c \<in> set (clamp_low_in_place (map Number xs) 0) \<Longrightarrow> nonneg c"
  by (auto simp: clamp_low_in_place_def)

lemma oren_nayar_qualitative_nonneg:
  assumes "0 \<le> cos_on" and "cos_on \<le> 1"
    and "normalize (project outgoing n) \<noteq> None"
    and "normalize (project incoming n) \<noteq> None"
    and "c \<in> set (oren_nayar_qualitative cos_on (dot incoming n) roughness reflectance multiplier
                     outgoing incoming n)"
  shows "nonneg c"
proof -
  obtain t where t: "std_min (acos cos_on) (Number HalfPi) = Number t"
    using assms(1,2) by (simp add: acos_def)
  obtain a where a: "std_max (Number t) (acos (dot incoming n)) = Number a"
    by (cases "acos (dot incoming n)") simp_all
  obtain b where b: "std_min (Number t) (acos (dot incoming n)) = Number b"
    by (cases "acos (dot incoming n)") simp_all
  obtain v i where v: "normalize (project outgoing n) = Some v"
    and i: "normalize (vsub incoming (vscale n (dot incoming n))) = Some i"
    using assms(3,4) by (auto simp: project_def)
  show ?thesis
    using assms(5)
    unfolding oren_nayar_qualitative_def Let_def t a b v i dot_normalized_def
    by (simp only: prod.case option.case float_value.case) (rule clamp_low_nonneg)
qed

lemma oren_nayar_qualitative_on_normal:
  assumes "normalize (project outgoing n) = None
           \<or> normalize (vsub incoming (vscale n cos_in)) = None"
  shows "oren_nayar_qualitative cos_on cos_in roughness reflectance multiplier outgoing incoming n
           = map (\<lambda>_. NaN) reflectance"
proof -
  have d: "dot_normalized (normalize (project outgoing n))
             (normalize (vsub incoming (vscale n cos_in))) = NaN"
    using assms by (auto simp: dot_normalized_def split: option.splits)
  show ?thesis
    unfolding oren_nayar_qualitative_def Let_def d
    by (simp add: clamp_low_in_place_def split: float_value.splits)
qed

lemma lambertian_nonneg: "0 \<le> r * k \<Longrightarrow> 0 \<le> r * (k * RcpPi)"
  by (simp add: RcpPi_def)

lemma evaluate_rough_value:
  assumes "has_diffuse modes"
    and "0 \<le> dot incoming (get_normal shading_basis)"
    and "0 \<le> dot outgoing (get_normal shading_basis)"
    and "m_roughness data \<noteq> 0"
  shows "m_diffuse (snd (evaluate data shading_basis outgoing incoming modes val))
           = oren_nayar_qualitative (dot outgoing (get_normal shading_basis))
               (dot incoming (get_normal shading_basis)) (m_roughness data) (m_reflectance data)
               (m_reflectance_multiplier data) outgoing incoming (get_normal shading_basis)"
    and "m_beauty (snd (evaluate data shading_basis outgoing incoming modes val))
           = m_diffuse (snd (evaluate data shading_basis outgoing incoming modes val))"
  using assms by (simp_all add: evaluate_def Let_def)

lemma evaluate_lambertian_value:
  assumes "has_diffuse modes"
    and "0 \<le> dot incoming (get_normal shading_basis)"
    and "m_roughness data = 0"
  shows "m_diffuse (snd (evaluate data shading_basis outgoing incoming modes val))
           = map (\<lambda>r. Number (r * (m_reflectance_multiplier data * RcpPi))) (m_reflectance data)"
    and "m_beauty (snd (evaluate data shading_basis outgoing incoming modes val))
           = m_diffuse (snd (evaluate data shading_basis outgoing incoming modes val))"
  using assms by (simp_all add: evaluate_def Let_def)

lemma sample_rough_value:
  assumes "m_mode smp = None_mode"
    and "sample wi data modes smp = Inr smp'"
    and "m_mode smp' \<noteq> None_mode"
    and "m_roughness data \<noteq> 0"
  shows "m_diffuse (m_value smp')
           = oren_nayar_qualitative (dot (m_outgoing smp) (get_normal (m_shading_basis smp)))
               (dot (transform_to_parent (m_shading_basis smp) wi)
                  (get_normal (m_shading_basis smp)))
               (m_roughness data) (m_reflectance data) (m_reflectance_multiplier data)
               (m_outgoing smp) (transform_to_parent (m_shading_basis smp) wi)
               (get_normal (m_shading_basis smp))"
    and "m_beauty (m_value smp') = m_diffuse (m_value smp')"
    and "0 \<le> dot (m_outgoing smp) (get_normal (m_shading_basis smp))"
  using assms by (auto simp: sample_def Let_def split: if_splits)

lemma sample_lambertian_value:
  assumes "m_mode smp = None_mode"
    and "sample wi data modes smp = Inr smp'"
    and "m_mode smp' \<noteq> None_mode"
    and "m_roughness data = 0"
  shows "m_diffuse (m_value smp')
           = map (\<lambda>r. Number (r * (m_reflectance_multiplier data * RcpPi))) (m_reflectance data)"
    and "m_beauty (m_value smp') = m_diffuse (m_value smp')"
  using assms by (auto simp: sample_def Let_def split: if_splits)

lemma sample_completes:
  assumes "has_diffuse modes"
    and "m_roughness data \<noteq> 0 \<longrightarrow>
           0 \<le> dot (m_outgoing smp) (get_normal (m_shading_basis smp))
           \<and> 0 \<le> dot (transform_to_parent (m_shading_basis smp) wi)
                    (get_normal (m_shading_basis smp))"
    and "0 < y3 wi"
  shows "\<exists>smp'. sample wi data modes smp = Inr smp' \<and> m_mode smp' = Diffuse"
  using assms by (auto simp: sample_def Let_def RcpPi_def)

text \<open>
  C1, as amended. \<open>evaluate\<close> returns a zero density and contributes nothing (the value
  object is left as the caller passed it, or is zeroed) when the mode mask does not request
  diffuse scattering, when the incoming direction is below the surface, or when the
  roughness is not zero and the outgoing direction is below the surface. The test of the
  outgoing direction is made on the rough path only.
\<close>

theorem evaluate_no_contribution:
  assumes "\<not> has_diffuse modes
           \<or> dot incoming (get_normal shading_basis) < 0
           \<or> (m_roughness data \<noteq> 0 \<and> dot outgoing (get_normal shading_basis) < 0)"
  shows "fst (evaluate data shading_basis outgoing incoming modes val) = 0
         \<and> (snd (evaluate data shading_basis outgoing incoming modes val) = val
            \<or> snd (evaluate data shading_basis outgoing incoming modes val)
                = set_components 0 val)"
  using assms by (auto simp: evaluate_def Let_def)

theorem evaluate_no_contribution_witness:
  "m_roughness \<lparr>m_reflectance = [1], m_reflectance_multiplier = 1, m_roughness = 1\<rparr> \<noteq> 0
   \<and> dot down (get_normal upright_basis) < 0
   \<and> evaluate \<lparr>m_reflectance = [1], m_reflectance_multiplier = 1, m_roughness = 1\<rparr>
         upright_basis down up Diffuse \<lparr>m_beauty = [Number 7], m_diffuse = [Number 7]\<rparr>
       = (0, \<lparr>m_beauty = [Number 0], m_diffuse = [Number 0]\<rparr>)"
  using evaluate_no_contribution
    [where modes = Diffuse and incoming = up and outgoing = down
       and shading_basis = upright_basis
       and data = "\<lparr>m_reflectance = [1], m_reflectance_multiplier = 1, m_roughness = 1\<rparr>"
       and val = "\<lparr>m_beauty = [Number 7], m_diffuse = [Number 7]\<rparr>"]
  by (simp add: evaluate_def Let_def has_diffuse_Diffuse dot_up_up dot_down_up set_components_def)

text \<open>
  The claim as stated fails at roughness zero: with the outgoing direction straight below
  the surface and the incoming direction along the normal, \<open>evaluate\<close> returns the
  Lambertian value and the density \<open>1 / \<pi>\<close>.
\<close>

theorem evaluate_below_surface_counterexample:
  "dot down (get_normal upright_basis) < 0
   \<and> evaluate \<lparr>m_reflectance = [1], m_reflectance_multiplier = 1, m_roughness = 0\<rparr>
         upright_basis down up Diffuse black
       = (1 / pi, \<lparr>m_beauty = [Number (1 / pi)], m_diffuse = [Number (1 / pi)]\<rparr>)
   \<and> 1 / pi \<noteq> (0 :: real)"
  by (simp add: evaluate_def Let_def has_diffuse_Diffuse dot_up_up dot_down_up
      set_components_def black_def RcpPi_def)

text \<open>
  C2. With diffuse scattering requested, both cosines against the shading normal
  non-negative and roughness zero, the diffuse and the beauty component returned by
  \<open>evaluate\<close> are the reflectance times the multiplier over \<open>\<pi>\<close>, bucket by bucket.
\<close>

theorem evaluate_lambertian:
  assumes "has_diffuse modes"
    and "0 \<le> dot incoming (get_normal shading_basis)"
    and "0 \<le> dot outgoing (get_normal shading_basis)"
    and "m_roughness data = 0"
  shows "m_diffuse (snd (evaluate data shading_basis outgoing incoming modes val))
           = map (\<lambda>r. Number (r * m_reflectance_multiplier data / pi)) (m_reflectance data)
         \<and> m_beauty (snd (evaluate data shading_basis outgoing incoming modes val))
           = map (\<lambda>r. Number (r * m_reflectance_multiplier data / pi)) (m_reflectance data)"
  using assms by (simp add: evaluate_def Let_def RcpPi_def)

theorem evaluate_lambertian_witness:
  "has_diffuse Diffuse
   \<and> 0 \<le> dot up (get_normal upright_basis)
   \<and> m_diffuse (snd (evaluate
         \<lparr>m_reflectance = [1, 3], m_reflectance_multiplier = 2, m_roughness = 0\<rparr>
         upright_basis up up Diffuse
         \<lparr>m_beauty = [Number 0, Number 0], m_diffuse = [Number 0, Number 0]\<rparr>))
       = [Number (2 / pi), Number (6 / pi)]"
  using evaluate_lambertian
    [where modes = Diffuse and incoming = up and outgoing = up
       and shading_basis = upright_basis
       and data = "\<lparr>m_reflectance = [1, 3], m_reflectance_multiplier = 2, m_roughness = 0\<rparr>"
       and val = "\<lparr>m_beauty = [Number 0, Number 0], m_diffuse = [Number 0, Number 0]\<rparr>"]
  by (simp add: has_diffuse_Diffuse dot_up_up)

text \<open>
  C3. For every input block, shading basis, pair of directions and mode mask, the scalar
  returned by \<open>evaluate_pdf\<close> is the probability density returned by \<open>evaluate\<close> on the
  same arguments, whatever the caller's value object holds.
\<close>

theorem evaluate_pdf_eq_evaluate:
  "evaluate_pdf data shading_basis outgoing incoming modes =
     fst (evaluate data shading_basis outgoing incoming modes val)"
  by (simp add: evaluate_pdf_def evaluate_def Let_def)

theorem evaluate_pdf_eq_evaluate_witness:
  "evaluate_pdf \<lparr>m_reflectance = [1], m_reflectance_multiplier = 1, m_roughness = 1\<rparr>
       upright_basis up up Diffuse
     = fst (evaluate \<lparr>m_reflectance = [1], m_reflectance_multiplier = 1, m_roughness = 1\<rparr>
              upright_basis up up Diffuse black)
   \<and> evaluate_pdf \<lparr>m_reflectance = [1], m_reflectance_multiplier = 1, m_roughness = 1\<rparr>
       upright_basis up up Diffuse = 1 / pi"
  using evaluate_pdf_eq_evaluate
    [where modes = Diffuse and incoming = up and outgoing = up
       and shading_basis = upright_basis
       and data = "\<lparr>m_reflectance = [1], m_reflectance_multiplier = 1, m_roughness = 1\<rparr>"
       and val = black]
  by (simp add: evaluate_pdf_def Let_def has_diffuse_Diffuse dot_up_up RcpPi_def)

lemma evaluate_along_normal:
  "evaluate \<lparr>m_reflectance = [1], m_reflectance_multiplier = 1, m_roughness = 1\<rparr>
       upright_basis up up Diffuse black
     = (1 / pi, \<lparr>m_beauty = [NaN], m_diffuse = [NaN]\<rparr>)"
  by (simp add: evaluate_def Let_def has_diffuse_Diffuse dot_up_up set_components_def black_def
      RcpPi_def oren_nayar_qualitative_on_normal normalize_project_up)

text \<open>
  C8, as amended. Where \<open>evaluate\<close> or \<open>sample\<close> runs to its end (for \<open>sample\<close>: it
  returns a sample with a scattering mode, from one that had none), every bucket of the
  value returned is a non-negative number in two cases. On the rough path, for every
  reflectance and multiplier, when the cosine of the outgoing direction is at most one and
  neither direction lies along the shading normal, so that both projections onto the
  tangent plane can be normalised: the rough path clamps. At roughness zero, when the
  product of reflectance and multiplier is non-negative in every bucket: the Lambertian
  term is not clamped.
\<close>

theorem value_nonneg:
  "(has_diffuse modes
      \<and> 0 \<le> dot incoming (get_normal shading_basis)
      \<and> (m_roughness data \<noteq> 0
            \<and> 0 \<le> dot outgoing (get_normal shading_basis)
            \<and> dot outgoing (get_normal shading_basis) \<le> 1
            \<and> normalize (project outgoing (get_normal shading_basis)) \<noteq> None
            \<and> normalize (project incoming (get_normal shading_basis)) \<noteq> None
          \<or> m_roughness data = 0
            \<and> (\<forall>r\<in>set (m_reflectance data). 0 \<le> r * m_reflectance_multiplier data))
     \<longrightarrow> (\<forall>c\<in>set (m_diffuse (snd (evaluate data shading_basis outgoing incoming modes val))).
            nonneg c)
         \<and> (\<forall>c\<in>set (m_beauty (snd (evaluate data shading_basis outgoing incoming modes val))).
            nonneg c))
   \<and> (m_mode smp = None_mode
      \<and> sample wi data modes smp = Inr smp'
      \<and> m_mode smp' \<noteq> None_mode
      \<and> (m_roughness data \<noteq> 0
            \<and> dot (m_outgoing smp) (get_normal (m_shading_basis smp)) \<le> 1
            \<and> normalize (project (m_outgoing smp) (get_normal (m_shading_basis smp))) \<noteq> None
            \<and> normalize (project (transform_to_parent (m_shading_basis smp) wi)
                             (get_normal (m_shading_basis smp))) \<noteq> None
          \<or> m_roughness data = 0
            \<and> (\<forall>r\<in>set (m_reflectance data). 0 \<le> r * m_reflectance_multiplier data))
     \<longrightarrow> (\<forall>c\<in>set (m_diffuse (m_value smp')). nonneg c)
         \<and> (\<forall>c\<in>set (m_beauty (m_value smp')). nonneg c))"
proof (intro conjI impI)
  let ?n = "get_normal shading_basis"
  assume h: "has_diffuse modes \<and> 0 \<le> dot incoming ?n
      \<and> (m_roughness data \<noteq> 0 \<and> 0 \<le> dot outgoing ?n \<and> dot outgoing ?n \<le> 1
            \<and> normalize (project outgoing ?n) \<noteq> None
            \<and> normalize (project incoming ?n) \<noteq> None
          \<or> m_roughness data = 0
            \<and> (\<forall>r\<in>set (m_reflectance data). 0 \<le> r * m_reflectance_multiplier data))"
  then have all: "\<forall>c\<in>set (m_diffuse (snd (evaluate data shading_basis outgoing incoming modes val))).
      nonneg c"
  proof (cases "m_roughness data = 0")
    case True
    with h show ?thesis
      by (auto simp: evaluate_lambertian_value lambertian_nonneg)
  next
    case False
    with h show ?thesis
      by (auto simp: evaluate_rough_value intro: oren_nayar_qualitative_nonneg)
  qed
  from all show "\<forall>c\<in>set (m_diffuse (snd (evaluate data shading_basis outgoing incoming modes val))).
      nonneg c" .
  from all h show "\<forall>c\<in>set (m_beauty (snd (evaluate data shading_basis outgoing incoming modes val))).
      nonneg c"
    by (cases "m_roughness data = 0") (simp_all add: evaluate_lambertian_value evaluate_rough_value)
next
  let ?n = "get_normal (m_shading_basis smp)"
  let ?incoming = "transform_to_parent (m_shading_basis smp) wi"
  assume h: "m_mode smp = None_mode \<and> sample wi data modes smp = Inr smp'
      \<and> m_mode smp' \<noteq> None_mode
      \<and> (m_roughness data \<noteq> 0 \<and> dot (m_outgoing smp) ?n \<le> 1
            \<and> normalize (project (m_outgoing smp) ?n) \<noteq> None
            \<and> normalize (project ?incoming ?n) \<noteq> None
          \<or> m_roughness data = 0
            \<and> (\<forall>r\<in>set (m_reflectance data). 0 \<le> r * m_reflectance_multiplier data))"
  then have run: "m_mode smp = None_mode" "sample wi data modes smp = Inr smp'"
    "m_mode smp' \<noteq> None_mode" by simp_all
  have all: "\<forall>c\<in>set (m_diffuse (m_value smp')). nonneg c"
  proof (cases "m_roughness data = 0")
    case True
    with h sample_lambertian_value [OF run True] show ?thesis
      by (auto simp: lambertian_nonneg)
  next
    case False
    with h sample_rough_value [OF run False] show ?thesis
      by (auto intro: oren_nayar_qualitative_nonneg)
  qed
  from all show "\<forall>c\<in>set (m_diffuse (m_value smp')). nonneg c" .
  from all show "\<forall>c\<in>set (m_beauty (m_value smp')). nonneg c"
    using sample_lambertian_value [OF run] sample_rough_value [OF run]
    by (cases "m_roughness data = 0") simp_all
qed

theorem value_nonneg_witness:
  "m_roughness \<lparr>m_reflectance = [- 1], m_reflectance_multiplier = - 2, m_roughness = 1\<rparr> \<noteq> 0
   \<and> has_diffuse Diffuse
   \<and> 0 \<le> dot slanted (get_normal upright_basis)
   \<and> dot slanted (get_normal upright_basis) \<le> 1
   \<and> normalize (project slanted (get_normal upright_basis)) \<noteq> None
   \<and> list_all nonneg
        (m_diffuse (snd (evaluate
           \<lparr>m_reflectance = [- 1], m_reflectance_multiplier = - 2, m_roughness = 1\<rparr>
           upright_basis slanted slanted Diffuse black)))"
  using value_nonneg
    [where modes = Diffuse and incoming = slanted and outgoing = slanted
       and shading_basis = upright_basis
       and data = "\<lparr>m_reflectance = [- 1], m_reflectance_multiplier = - 2, m_roughness = 1\<rparr>"
       and val = black and smp = "fresh_sample slanted" and wi = slanted
       and smp' = "fresh_sample slanted"]
  by (simp add: has_diffuse_Diffuse dot_slanted_up normalize_project_slanted list_all_iff)

text \<open>
  The claim as stated fails at roughness zero with a negative multiplier: \<open>evaluate\<close>
  completes with density \<open>1 / \<pi>\<close> and returns the negative value \<open>- (1 / \<pi>)\<close>.
\<close>

theorem value_nonneg_counterexample:
  "evaluate \<lparr>m_reflectance = [1], m_reflectance_multiplier = - 1, m_roughness = 0\<rparr>
       upright_basis up up Diffuse black
     = (1 / pi, \<lparr>m_beauty = [Number (- (1 / pi))], m_diffuse = [Number (- (1 / pi))]\<rparr>)
   \<and> \<not> nonneg (Number (- (1 / pi)))"
  by (simp add: evaluate_def Let_def has_diffuse_Diffuse dot_up_up set_components_def black_def
      RcpPi_def not_le)




section \<open>Properties of the pixel variation AOV\<close>

text \<open>
  The loops in closed form: the scan returns the largest of zero and the first channels of
  the window, and each of the two writing passes maps every pixel of the window from its
  own old colour and leaves every other pixel alone.
\<close>

lemma fold_max_rows:
  "fold (\<lambda>y (m::real). fold (\<lambda>x m. max (g x y) m) xs m) ys m0
     = Max (insert m0 ((\<lambda>p. g (fst p) (snd p)) ` (set xs \<times> set ys)))"
proof -
  have inner: "\<And>y m. fold (\<lambda>x (m::real). max (g x y) m) xs m = fold max (map (\<lambda>x. g x y) xs) m"
    by (simp add: fold_map comp_def)
  have "fold (\<lambda>y (m::real). fold (\<lambda>x m. max (g x y) m) xs m) ys m0
        = fold max (concat (map (\<lambda>y. map (\<lambda>x. g x y) xs) ys)) m0"
    unfolding inner by (induction ys arbitrary: m0) simp_all
  also have "\<dots> = Max (set (m0 # concat (map (\<lambda>y. map (\<lambda>x. g x y) xs) ys)))"
    by (simp only: Max.set_eq_fold)
  also have "set (m0 # concat (map (\<lambda>y. map (\<lambda>x. g x y) xs) ys))
        = insert m0 ((\<lambda>p. g (fst p) (snd p)) ` (set xs \<times> set ys))"
  proof -
    have "set (concat (map (\<lambda>y. map (\<lambda>x. g x y) xs) ys))
          = (\<Union>y\<in>set ys. (\<lambda>x. g x y) ` set xs)"
      by simp
    also have "\<dots> = (\<lambda>p. g (fst p) (snd p)) ` (set xs \<times> set ys)"
      by (auto simp: image_iff) blast+
    finally show ?thesis by simp
  qed
  finally show ?thesis .
qed

lemma fold_row_update:
  "distinct xs \<Longrightarrow>
   fold (\<lambda>x (im :: Image). im((x, y) := f (im (x, y)))) xs img
     = (\<lambda>p. if snd p = y \<and> fst p \<in> set xs then f (img p) else img p)"
proof (induction xs arbitrary: img)
  case Nil
  then show ?case by simp
next
  case (Cons x xs)
  from Cons.prems have d: "distinct xs" and nx: "x \<notin> set xs" by simp_all
  have "fold (\<lambda>x (im :: Image). im((x, y) := f (im (x, y)))) (x # xs) img
        = fold (\<lambda>x (im :: Image). im((x, y) := f (im (x, y)))) xs (img((x, y) := f (img (x, y))))"
    by simp
  also have "\<dots> = (\<lambda>p. if snd p = y \<and> fst p \<in> set xs
                        then f ((img((x, y) := f (img (x, y)))) p)
                        else (img((x, y) := f (img (x, y)))) p)"
    by (rule Cons.IH [OF d])
  also have "\<dots> = (\<lambda>p. if snd p = y \<and> fst p \<in> set (x # xs) then f (img p) else img p)"
    using nx by (auto simp: fun_eq_iff)
  finally show ?case .
qed

lemma fold_rows_update:
  "distinct xs \<Longrightarrow> distinct ys \<Longrightarrow>
   fold (\<lambda>y (im :: Image). fold (\<lambda>x im. im((x, y) := f (im (x, y)))) xs im) ys img
     = (\<lambda>p. if fst p \<in> set xs \<and> snd p \<in> set ys then f (img p) else img p)"
proof (induction ys arbitrary: img)
  case Nil
  then show ?case by simp
next
  case (Cons y ys)
  from Cons.prems have dx: "distinct xs" and dy: "distinct ys" and ny: "y \<notin> set ys" by simp_all
  let ?row = "\<lambda>p. if snd p = y \<and> fst p \<in> set xs then f (img p) else img p"
  have "fold (\<lambda>y (im :: Image). fold (\<lambda>x im. im((x, y) := f (im (x, y)))) xs im) (y # ys) img
        = fold (\<lambda>y (im :: Image). fold (\<lambda>x im. im((x, y) := f (im (x, y)))) xs im) ys ?row"
    by (simp only: fold_simps fold_row_update [OF dx])
  also have "\<dots> = (\<lambda>p. if fst p \<in> set xs \<and> snd p \<in> set ys then f (?row p) else ?row p)"
    by (rule Cons.IH [OF dx dy])
  also have "\<dots> = (\<lambda>p. if fst p \<in> set xs \<and> snd p \<in> set (y # ys) then f (img p) else img p)"
    using ny by (auto simp: fun_eq_iff)
  finally show ?case .
qed

lemma find_max_variation_eq:
  "find_max_variation img cw = Max (insert 0 ((\<lambda>p. c0 (img p)) ` window cw))"
proof -
  have w: "window cw = set [min_x cw ..< Suc (max_x cw)] \<times> set [min_y cw ..< Suc (max_y cw)]"
    by (auto simp: window_def)
  show ?thesis
    unfolding find_max_variation_def get_pixel_def Let_def w
    using fold_max_rows [of "\<lambda>x y. c0 (img (x, y))"] by simp
qed

lemma normalize_pass_eq:
  "normalize_pass m img cw
     = (\<lambda>p. if p \<in> window cw then lerp Blue Red (fit (c0 (img p)) 0 m 0 1) else img p)"
proof -
  have w: "\<And>p. p \<in> window cw \<longleftrightarrow>
      fst p \<in> set [min_x cw ..< Suc (max_x cw)] \<and> snd p \<in> set [min_y cw ..< Suc (max_y cw)]"
    by (auto simp: window_def)
  show ?thesis
    unfolding normalize_pass_def get_pixel_def set_pixel_def Let_def w
    using fold_rows_update [of "[min_x cw ..< Suc (max_x cw)]" "[min_y cw ..< Suc (max_y cw)]"
        "\<lambda>c. lerp Blue Red (fit (c0 c) 0 m 0 1)" img]
    by simp
qed

lemma fill_pass_eq:
  "fill_pass img cw = (\<lambda>p. if p \<in> window cw then Blue else img p)"
proof -
  have w: "\<And>p. p \<in> window cw \<longleftrightarrow>
      fst p \<in> set [min_x cw ..< Suc (max_x cw)] \<and> snd p \<in> set [min_y cw ..< Suc (max_y cw)]"
    by (auto simp: window_def)
  show ?thesis
    unfolding fill_pass_def set_pixel_def w
    using fold_rows_update [of "[min_x cw ..< Suc (max_x cw)]" "[min_y cw ..< Suc (max_y cw)]"
        "\<lambda>c. Blue" img]
    by simp
qed


lemma post_process_image_eq:
  "post_process_image img cw
     = (\<lambda>p. if p \<in> window cw
            then (if find_max_variation img cw \<noteq> 0
                  then lerp Blue Red (fit (c0 (img p)) 0 (find_max_variation img cw) 0 1)
                  else Blue)
            else img p)"
  by (simp add: post_process_image_def Let_def normalize_pass_eq fill_pass_eq fun_eq_iff)

lemma fit_unit: "fit v 0 m 0 1 = v / m"
  by (simp add: fit_def)

lemma window_finite: "finite (window cw)"
proof -
  have "window cw \<subseteq> {..max_x cw} \<times> {..max_y cw}"
    by (auto simp: window_def)
  then show ?thesis by (rule finite_subset) simp
qed

lemma find_max_variation_nonneg_region:
  assumes "\<forall>p\<in>window cw. 0 \<le> c0 (img p)" and "window cw \<noteq> {}"
  shows "find_max_variation img cw = Max ((\<lambda>p. c0 (img p)) ` window cw)"
proof -
  let ?V = "(\<lambda>p. c0 (img p)) ` window cw"
  have fin: "finite ?V" using window_finite by simp
  have ne: "?V \<noteq> {}" using assms(2) by simp
  have "Max ?V \<in> ?V" using fin ne by (rule Max_in)
  then have "0 \<le> Max ?V" using assms(1) by auto
  then show ?thesis
    unfolding find_max_variation_eq using fin ne by (simp add: max_def)
qed

text \<open>
  C7. On a non-empty crop window of a variation image, whose first channel is nowhere
  negative, \<open>post_process_image\<close> finds the maximum of the first channel over the
  window; if the maximum is zero every pixel of the window becomes blue, otherwise every
  pixel becomes the interpolation between blue and red at its value over the maximum.
  A pixel holding zero becomes blue, a pixel holding the non-zero maximum becomes red, and
  a pixel holding half of it becomes the midpoint \<open>(1/2, 0, 1/2)\<close>.
\<close>

theorem post_process_image_remap:
  assumes "min_x cw \<le> max_x cw" and "min_y cw \<le> max_y cw"
    and "\<forall>p\<in>window cw. 0 \<le> c0 (img p)"
  shows "find_max_variation img cw = Max ((\<lambda>p. c0 (img p)) ` window cw)
    \<and> (\<forall>p\<in>window cw.
          post_process_image img cw p
            = (if Max ((\<lambda>p. c0 (img p)) ` window cw) = 0 then Blue
               else lerp Blue Red (c0 (img p) / Max ((\<lambda>p. c0 (img p)) ` window cw))))
    \<and> (\<forall>p\<in>window cw. c0 (img p) = 0 \<longrightarrow> post_process_image img cw p = Blue)
    \<and> (\<forall>p\<in>window cw. c0 (img p) = Max ((\<lambda>p. c0 (img p)) ` window cw) \<and> c0 (img p) \<noteq> 0
          \<longrightarrow> post_process_image img cw p = Red)
    \<and> (\<forall>p\<in>window cw. c0 (img p) = Max ((\<lambda>p. c0 (img p)) ` window cw) / 2 \<and> c0 (img p) \<noteq> 0
          \<longrightarrow> post_process_image img cw p = Color3f (1 / 2) 0 (1 / 2))"
proof -
  have ne: "window cw \<noteq> {}"
  proof -
    have "(min_x cw, min_y cw) \<in> window cw" using assms(1,2) by (simp add: window_def)
    then show ?thesis by blast
  qed
  have m: "find_max_variation img cw = Max ((\<lambda>p. c0 (img p)) ` window cw)"
    using find_max_variation_nonneg_region [OF assms(3) ne] .
  show ?thesis
    unfolding post_process_image_eq m fit_unit
    by (auto simp: lerp_def Blue_def Red_def)
qed

theorem post_process_image_remap_witness:
  "min_x row_window \<le> max_x row_window
   \<and> find_max_variation row_image row_window = 1
   \<and> post_process_image row_image row_window (0, 0) = Blue
   \<and> post_process_image row_image row_window (1, 0) = Color3f (1 / 2) 0 (1 / 2)
   \<and> post_process_image row_image row_window (2, 0) = Red"
proof -
  have nonneg: "\<forall>p\<in>window row_window. 0 \<le> c0 (row_image p)"
    by (simp add: row_image_def)
  have lo: "min_x row_window \<le> max_x row_window" "min_y row_window \<le> max_y row_window"
    by (simp_all add: row_window_def)
  have m: "find_max_variation row_image row_window = 1"
    by (simp add: find_max_variation_def row_image_def row_window_def get_pixel_def upt_rec)
  have w: "(0, 0) \<in> window row_window" "(1, 0) \<in> window row_window" "(2, 0) \<in> window row_window"
    by (simp_all add: window_def row_window_def)
  have v: "c0 (row_image (0, 0)) = 0" "c0 (row_image (1, 0)) = 1 / 2" "c0 (row_image (2, 0)) = 1"
    by (simp_all add: row_image_def)
  from post_process_image_remap [OF lo nonneg] m w v lo(1) show ?thesis
    by (metis half_gt_zero_iff less_numeral_extra(1) less_irrefl)
qed

text \<open>
  C10. \<open>post_process_image\<close> leaves every pixel outside the crop window (both bounds
  inclusive) as it was, and what it writes inside the window depends only on the pixels
  inside the window.
\<close>

theorem post_process_image_frame:
  "(p \<notin> window cw \<longrightarrow> post_process_image img cw p = img p)
   \<and> ((\<forall>q\<in>window cw. img q = img' q)
        \<longrightarrow> (\<forall>q\<in>window cw. post_process_image img cw q = post_process_image img' cw q))"
proof -
  have "find_max_variation img cw = find_max_variation img' cw"
    if "\<forall>q\<in>window cw. img q = img' q"
  proof -
    have "(\<lambda>p. c0 (img p)) ` window cw = (\<lambda>p. c0 (img' p)) ` window cw"
      using that by (intro image_cong) simp_all
    then show ?thesis by (simp add: find_max_variation_eq)
  qed
  then show ?thesis
    by (simp add: post_process_image_eq)
qed

theorem post_process_image_frame_witness:
  "(5, 5) \<notin> window row_window
   \<and> post_process_image row_image row_window (5, 5) = Color3f 0 0 0"
  using post_process_image_frame [where p = "(5, 5)" and cw = row_window and img = row_image
      and img' = row_image]
  by (simp add: window_def row_window_def row_image_def)

section \<open>Properties of the voxel ambient occlusion shader\<close>

lemma max_half_samples: "max 1 (w :: 64 word) = (if w < 1 then 1 else w)"
  by (metis leI max.absorb1 max.absorb2 order_less_imp_le)

lemma evaluate_at_clearance_eq:
  "evaluate_at_clearance ops this sc xi sp res isect origin clearance
     = spec_shade ops this sc xi sp res isect origin
         (spec_select_mode (m_classic_threshold this) (m_fast_threshold this) clearance)"
  by (auto simp: evaluate_at_clearance_def spec_select_mode_def spec_output_def Let_def
      split: prod.splits)

lemma equal_thresholds_shader_eq:
  "equal_thresholds_shader =
     \<lparr>m_name = ''ao'', m_samples = 16, m_max_distance = 1, m_max_voxel_extent = 0.01,
      m_low_threshold = 1 / 2, m_high_threshold = 1 / 2,
      m_output_filename = [], m_enable_diagnostics = True,
      m_last_geometry_version_id = 1, m_last_asm_inst_version_id = 1,
      m_voxel_tree = Some 5, m_voxel_tree_intersector = Some 5,
      m_diag_length = 5 * (1 + 0.00001), m_classic_threshold = 1 / 2 * (5 * (1 + 0.00001)),
      m_fast_threshold = 1 / 2 * (5 * (1 + 0.00001)), m_half_samples = 8\<rparr>"
  by (simp add: equal_thresholds_shader_def on_frame_begin_def construct_def extract_parameters_def
      Let_def get_real_def get_size_def get_string_def get_bool_def diag_tree_ops_def
      diagnostic_shader_def DefaultLowThreshold_def DefaultHighThreshold_def InvalidVersionID_def)

text \<open>
  C4, as amended. Whenever the intersector has been built, the occlusion strategy of
  \<open>evaluate\<close> follows from the measured clearance: fast mode when the clearance is at
  least the fast threshold, classic mode when it is below both thresholds, and otherwise
  blend mode with the factor \<open>linearstep classic_threshold fast_threshold clearance\<close>.
  A clearance equal to the fast threshold selects fast mode; a clearance equal to the
  classic threshold selects blend mode with factor zero provided the classic threshold is
  below the fast threshold.
\<close>

theorem mode_selection:
  fixes ops :: "('isect, 'sc, 'xi) occlusion_ops"
    and this :: "('tree, 'isect) VoxelAOSurfaceShader"
    and sp :: ShadingPoint and res :: ShadingResult and sc :: 'sc and xi :: 'xi
    and isect :: 'isect and backtrack_init :: real
  defines "reverse_ray \<equiv> \<lparr>m_org = get_point sp, m_dir = vneg (get_ray_dir sp),
                            m_tmin = 0, m_tmax = get_distance sp\<rparr>"
  defines "exit_point \<equiv> vadd (get_point sp)
             (vscale (vneg (get_ray_dir sp))
                (snd (trace ops isect reverse_ray False backtrack_init) * (1 + 0.00001)))"
  defines "clearance \<equiv> snd (trace ops isect
             \<lparr>m_org = exit_point, m_dir = get_geometric_normal sp,
              m_tmin = 0, m_tmax = m_fast_threshold this\<rparr> True (m_fast_threshold this))"
  defines "outcome \<equiv> (\<lambda>mode. Inr (spec_shade ops this sc xi sp
             (res\<lparr>m_color_space := ColorSpaceLinearRGB, m_alpha := 1\<rparr>) isect
             (vadd exit_point (vscale (get_geometric_normal sp) (m_diag_length this))) mode))"
  assumes "m_voxel_tree_intersector this = Some isect"
  shows "evaluate_ao ops this sc xi sp res backtrack_init
           = outcome (spec_select_mode (m_classic_threshold this) (m_fast_threshold this) clearance)
    \<and> (clearance \<ge> m_fast_threshold this
         \<longrightarrow> evaluate_ao ops this sc xi sp res backtrack_init = outcome FastMode)
    \<and> (clearance < m_fast_threshold this \<and> clearance < m_classic_threshold this
         \<longrightarrow> evaluate_ao ops this sc xi sp res backtrack_init = outcome ClassicMode)
    \<and> (clearance < m_fast_threshold this \<and> m_classic_threshold this \<le> clearance
         \<longrightarrow> evaluate_ao ops this sc xi sp res backtrack_init
             = outcome (BlendMode (linearstep (m_classic_threshold this) (m_fast_threshold this)
                                     clearance)))
    \<and> (clearance = m_classic_threshold this \<and> m_classic_threshold this < m_fast_threshold this
         \<longrightarrow> evaluate_ao ops this sc xi sp res backtrack_init = outcome (BlendMode 0))
    \<and> (clearance = m_fast_threshold this
         \<longrightarrow> evaluate_ao ops this sc xi sp res backtrack_init = outcome FastMode)"
proof -
  have main: "evaluate_ao ops this sc xi sp res backtrack_init
      = outcome (spec_select_mode (m_classic_threshold this) (m_fast_threshold this) clearance)"
    using assms(5)
    unfolding evaluate_ao_def outcome_def clearance_def exit_point_def reverse_ray_def
    by (simp add: Let_def case_prod_beta evaluate_at_clearance_eq)
  show ?thesis
    unfolding main by (simp add: spec_select_mode_def linearstep_def)
qed

theorem mode_selection_witness:
  "m_voxel_tree_intersector ((diagnostic_shader 2 4)\<lparr>m_voxel_tree_intersector := Some 2\<rparr>) = Some 2
   \<and> evaluate_ao counting_ops ((diagnostic_shader 2 4)\<lparr>m_voxel_tree_intersector := Some 2\<rparr>)
        0 () flat_point blank_result 0
       = Inr (blank_result\<lparr>m_color := Color3f 1 0 0\<rparr>, 16)"
  using mode_selection
      [where ops = counting_ops
         and this = "(diagnostic_shader 2 4)\<lparr>m_voxel_tree_intersector := Some 2\<rparr>"
         and sc = 0 and xi = "()" and sp = flat_point and res = blank_result and isect = 2
         and backtrack_init = 0]
  by (simp add: diagnostic_shader_def counting_ops_def spec_output_def blank_result_def
      spec_select_mode_def linearstep_def)

text \<open>
  The claim as stated fails when the two thresholds coincide, which equal low and high
  threshold parameters produce: a clearance equal to the classic threshold is then also
  equal to the fast threshold, and the shader runs fast mode (blue in the diagnostics), not
  blend mode with factor zero (red). Here the normal ray is blocked only beyond the fast
  threshold, so the measured clearance is the threshold itself.
\<close>

theorem mode_selection_counterexample:
  "m_classic_threshold equal_thresholds_shader = m_fast_threshold equal_thresholds_shader
   \<and> snd (trace counting_ops 5
            \<lparr>m_org = Vector3f 0 0 0, m_dir = up, m_tmin = 0,
              m_tmax = m_fast_threshold equal_thresholds_shader\<rparr> True
            (m_fast_threshold equal_thresholds_shader))
       = m_classic_threshold equal_thresholds_shader
   \<and> evaluate_ao counting_ops equal_thresholds_shader 0 () flat_point blank_result 0
       = Inr (blank_result\<lparr>m_color := Color3f 0 0 1\<rparr>, 16)
   \<and> spec_shade counting_ops equal_thresholds_shader 0 () flat_point blank_result 5 up (BlendMode 0)
       = (blank_result\<lparr>m_color := Color3f 1 0 0\<rparr>, 16)"
  unfolding equal_thresholds_shader_eq
  by (simp add: evaluate_ao_def evaluate_at_clearance_def Let_def counting_ops_def
      spec_output_def blank_result_def flat_point_def)

text \<open>
  C5. When both version counters of the scene equal the cached ones, \<open>on_frame_begin\<close>
  returns the shader unchanged and builds nothing. When either differs, it caches both
  counters, builds the voxel tree and its intersector, and recomputes the diagonal length,
  the two thresholds and the halved sample count, which is \<open>max 1 (samples div 2)\<close>.
\<close>

theorem on_frame_begin_gating:
  "(geometry_version_id scene = m_last_geometry_version_id this
      \<and> assembly_instances_version_id scene = m_last_asm_inst_version_id this
    \<longrightarrow> on_frame_begin ops scene this = (this, []))
   \<and> (geometry_version_id scene \<noteq> m_last_geometry_version_id this
        \<or> assembly_instances_version_id scene \<noteq> m_last_asm_inst_version_id this
    \<longrightarrow> (let tree = new_AOVoxelTree ops scene (m_max_voxel_extent this);
              diag = get_max_diag_length ops tree * (1 + 0.00001)
          in on_frame_begin ops scene this =
               (this\<lparr>m_last_geometry_version_id := geometry_version_id scene,
                      m_last_asm_inst_version_id := assembly_instances_version_id scene,
                      m_voxel_tree := Some tree,
                      m_diag_length := diag,
                      m_classic_threshold := m_low_threshold this * diag,
                      m_fast_threshold := m_high_threshold this * diag,
                      m_half_samples := max 1 (m_samples this div 2),
                      m_voxel_tree_intersector := Some (new_AOVoxelTreeIntersector ops tree)\<rparr>,
                [BuildVoxelTree]
                  @ (if m_output_filename this \<noteq> []
                     then [DumpSolidLeavesToDisk (m_output_filename this)] else [])
                  @ [BuildIntersector])))"
  unfolding max_half_samples on_frame_begin_def Let_def
  by (simp del: word_less_1)

theorem on_frame_begin_gating_witness:
  "on_frame_begin diag_tree_ops
       \<lparr>geometry_version_id = 7, assembly_instances_version_id = 3, geometry = 5\<rparr>
       (diagnostic_shader 2 4)
     = (diagnostic_shader 2 4, [])
   \<and> on_frame_begin diag_tree_ops
       \<lparr>geometry_version_id = 8, assembly_instances_version_id = 3, geometry = 5\<rparr>
       ((diagnostic_shader 2 4)\<lparr>m_samples := 1\<rparr>)
     = ((diagnostic_shader 2 4)
          \<lparr>m_samples := 1, m_last_geometry_version_id := 8, m_voxel_tree := Some 5,
            m_voxel_tree_intersector := Some 5, m_diag_length := 5 * (1 + 0.00001),
            m_classic_threshold := 2 * (5 * (1 + 0.00001)),
            m_fast_threshold := 4 * (5 * (1 + 0.00001)), m_half_samples := 1\<rparr>,
        [BuildVoxelTree, BuildIntersector])"
  using on_frame_begin_gating
      [where ops = diag_tree_ops and this = "diagnostic_shader 2 4"
         and scene = "\<lparr>geometry_version_id = 7, assembly_instances_version_id = 3, geometry = 5\<rparr>"]
    on_frame_begin_gating
      [where ops = diag_tree_ops and this = "(diagnostic_shader 2 4)\<lparr>m_samples := 1\<rparr>"
         and scene = "\<lparr>geometry_version_id = 8, assembly_instances_version_id = 3, geometry = 5\<rparr>"]
  by (simp add: diag_tree_ops_def diagnostic_shader_def Let_def)

text \<open>
  C6. Constructing the shader from a dictionary whose low threshold is negative, whose
  high threshold is negative, or whose high threshold is below the low one (each with its
  default when absent) yields a shader with the thresholds 2 and 4 and logs the error; the
  constructor is a total function, so construction does not fail.
\<close>

theorem construct_threshold_fallback:
  assumes "get_real params ''low_threshold'' 2 < 0
           \<or> get_real params ''high_threshold'' 4 < 0
           \<or> get_real params ''high_threshold'' 4 < get_real params ''low_threshold'' 2"
  shows "m_low_threshold (fst (construct name params raw)) = 2
         \<and> m_high_threshold (fst (construct name params raw)) = 4
         \<and> snd (construct name params raw)
             = [LogError ''invalid low and high threshold values, switching back to default %f and %f'' [2, 4]]"
  using assms
  by (auto simp: construct_def extract_parameters_def Let_def DefaultLowThreshold_def DefaultHighThreshold_def)

theorem construct_threshold_fallback_witness:
  "get_real [''low_threshold'' \<mapsto> PReal 5, ''high_threshold'' \<mapsto> PReal 3] ''high_threshold'' 4
     < get_real [''low_threshold'' \<mapsto> PReal 5, ''high_threshold'' \<mapsto> PReal 3] ''low_threshold'' 2
   \<and> m_low_threshold (fst (construct ''ao''
         [''low_threshold'' \<mapsto> PReal 5, ''high_threshold'' \<mapsto> PReal 3] (diagnostic_shader 0 0))) = 2
   \<and> m_high_threshold (fst (construct ''ao''
         [''low_threshold'' \<mapsto> PReal 5, ''high_threshold'' \<mapsto> PReal 3] (diagnostic_shader 0 0))) = 4"
  using construct_threshold_fallback
      [where params = "[''low_threshold'' \<mapsto> PReal 5, ''high_threshold'' \<mapsto> PReal 3]"
         and name = "''ao''" and raw = "diagnostic_shader 0 0"]
  by (simp add: get_real_def)

end
